theory Spec2Isabelle
  imports Main
begin

section \<open>Locale-aware route resolution (runtime/routing/compatibles/routing.ts)\<close>

text \<open>
  A shallow embedding of the routing helpers of the i18n module: the prefix policy
  \<open>prefixable\<close>, \<open>getRouteBaseName\<close>, \<open>resolveRoute\<close> with its derived
  \<open>localePath\<close>, \<open>localeRoute\<close> and \<open>localeLocation\<close>, and \<open>switchLocalePath\<close>.
  JavaScript strings are lists of characters, objects with string keys are maps, a thrown
  value is the left summand of a sum type, and everything the file imports from elsewhere
  (the router, the discovery helper, the path helpers of the URL library, the default
  dynamic-params key) is a parameter of the model.
\<close>

subsection \<open>Data model\<close>

text \<open>The four members of the string union \<open>Strategies\<close>.\<close>

datatype strategy = Prefix | PrefixAndDefault | PrefixExceptDefault | NoPrefix

text \<open>A route record name is a string or a symbol (given here by its description).\<close>

datatype route_name = NameStr string | NameSym string

text \<open>
  A property of a plain object that the code tests with \<open>in\<close>: the key can be absent,
  present with the value \<open>undefined\<close> (or \<open>null\<close>), or present with a value.
\<close>

datatype 'a slot = Absent | Undefined | Value 'a

datatype param_value = PStr string | PArr "string list"

type_synonym params = "string \<rightharpoonup> param_value"

datatype query_value = QStr string | QArr "string list"

type_synonym query = "string \<rightharpoonup> query_value"

type_synonym history_state = "string \<rightharpoonup> string"

text \<open>
  A route's \<open>meta\<close> maps a key to per-locale parameter overrides; it is held either
  directly or behind a reactive reference (\<open>isRef\<close>).
\<close>

type_synonym route_meta = "string \<rightharpoonup> (string \<rightharpoonup> params)"

datatype meta_holder = MetaRef route_meta | MetaPlain route_meta

text \<open>
  \<open>RouteLocationPathRaw | RouteLocationNamedRaw\<close>: the object form of a route
  reference, and the shape of the descriptor \<open>localizedRoute\<close>.
\<close>

record route_location =
  path :: "string slot"
  name :: "route_name slot"
  params :: "params option"
  query :: "query option"
  hash :: "string option"
  state :: "history_state option"
  replace :: "bool option"
  force :: "bool option"

text \<open>\<open>RouteLocationRaw\<close>: a string or an object.\<close>

datatype route_raw = RouteStr string | RouteObj route_location

text \<open>
  What the router's \<open>resolve\<close> returns, and the shape of the current route
  (\<open>RouteLocationNormalizedLoaded\<close>). \<open>redirectedFrom\<close> holds
  \<open>redirectedFrom?.fullPath\<close>; \<open>rstate\<close> is the \<open>state\<close> the source reads from
  the discovered route with the type checker silenced.
\<close>

record resolved_route =
  rname :: "route_name option"
  rpath :: string
  rfullPath :: string
  rparams :: params
  rquery :: query
  rhash :: string
  rstate :: "history_state option"
  redirectedFrom :: "string option"
  meta :: meta_holder

text \<open>
  A thrown value: \<open>null\<close>, another primitive, or an object with its \<open>type\<close> property
  when it has one. The router's no-match failure is an object with \<open>type\<close> 1; a
  \<open>TypeError\<close> is an object without a \<open>type\<close>.
\<close>

datatype thrown = ThrownNull | ThrownPrimitive string | ThrownObject "int option"

definition TypeError :: thrown where
  "TypeError = ThrownObject None"

definition NoMatch :: thrown where
  "NoMatch = ThrownObject (Some 1)"

text \<open>What \<open>resolveRoute\<close> returns: a resolved route, \<open>null\<close> or \<open>undefined\<close>.\<close>

datatype resolve_result = Resolved resolved_route | ResultNull | ResultUndefined

record prefixable_options =
  currentLocale :: string
  defaultLocale :: string
  strategy :: strategy

text \<open>
  The options \<open>getI18nRoutingOptions\<close> yields. \<open>dynamicParamsInterceptor\<close> stands for
  the chain \<open>dynamicParamsInterceptor?.()?.value\<close>: \<open>None\<close> when a link of the chain
  is nullish, else the per-locale record behind the reference.
\<close>

record routing_options =
  opt_defaultLocale :: string
  opt_strategy :: strategy
  routesNameSeparator :: string
  defaultLocaleRouteNameSuffix :: string
  trailingSlash :: bool
  opt_prefixable :: "prefixable_options \<Rightarrow> bool"
  switchLocalePathIntercepter :: "string \<Rightarrow> string \<Rightarrow> string"
  dynamicRouteParamsKey :: string
  dynamicParamsInterceptor :: "(string \<rightharpoonup> params) option"

text \<open>
  The receiver \<open>this\<close> (a \<open>RoutingProxy\<close>) with what the code reaches through it:
  the router's \<open>resolve\<close>, the discovery helper \<open>resolve\<close> of \<open>./utils\<close> (applied to
  the router), the current route, the active locale (\<open>getLocale(i18n)\<close>) and the options.
\<close>

record routing_proxy =
  router_resolve :: "route_raw \<Rightarrow> thrown + resolved_route"
  utils_resolve :: "route_location \<Rightarrow> strategy \<Rightarrow> string \<Rightarrow> thrown + resolved_route"
  route :: "resolved_route option"
  i18n_locale :: string
  options :: routing_options

text \<open>
  The imports from outside the repository: \<open>parsePath\<close>, \<open>parseQuery\<close>,
  \<open>withTrailingSlash\<close> and \<open>withoutTrailingSlash\<close> of the URL library (the last two
  with their second argument), and the constant \<open>DEFAULT_DYNAMIC_PARAMS_KEY\<close>.
\<close>

record parsed_url =
  pathname :: string
  search :: string
  url_hash :: string

record externals =
  parsePath :: "string \<Rightarrow> parsed_url"
  parseQuery :: "string \<Rightarrow> query"
  withTrailingSlash :: "string \<Rightarrow> bool \<Rightarrow> string"
  withoutTrailingSlash :: "string \<Rightarrow> bool \<Rightarrow> string"
  DEFAULT_DYNAMIC_PARAMS_KEY :: string

subsection \<open>Prefix policy\<close>

definition RESOLVED_PREFIXED :: "strategy set" where
  "RESOLVED_PREFIXED = {PrefixAndDefault, PrefixExceptDefault}"

definition prefixable :: "prefixable_options \<Rightarrow> bool" where
  "prefixable optons =
     (let isDefaultLocale = (currentLocale optons = defaultLocale optons)
      in \<not> (isDefaultLocale \<and> strategy optons \<in> RESOLVED_PREFIXED) \<and>
         \<not> (strategy optons = NoPrefix))"

definition DefaultPrefixable :: "prefixable_options \<Rightarrow> bool" where
  "DefaultPrefixable = prefixable"

subsection \<open>Strings\<close>

text \<open>
  \<open>String.prototype.split\<close> with a string separator: an empty separator cuts the
  string into its characters; otherwise the pieces between successive occurrences of the
  separator, found from the left.
\<close>

fun split_from :: "string \<Rightarrow> string \<Rightarrow> string \<Rightarrow> string list" where
  "split_from sep acc [] = [rev acc]"
| "split_from sep acc (c # cs) =
     (if take (length sep) (c # cs) = sep
      then rev acc # split_from sep [] (drop (length sep - 1) cs)
      else split_from sep (c # acc) cs)"

definition js_split :: "string \<Rightarrow> string \<Rightarrow> string list" where
  "js_split s sep = (if sep = [] then map (\<lambda>c. [c]) s else split_from sep [] s)"

text \<open>Reading index 0 of an array: \<open>undefined\<close> when the array is empty.\<close>

definition first_elem :: "'a list \<Rightarrow> 'a option" where
  "first_elem xs = (case xs of [] \<Rightarrow> None | x # _ \<Rightarrow> Some x)"

text \<open>\<open>String.prototype.includes\<close>: the second string occurs somewhere in the first.\<close>

fun js_includes :: "string \<Rightarrow> string \<Rightarrow> bool" where
  "js_includes [] sep = (sep = [])"
| "js_includes (c # cs) sep = (take (length sep) (c # cs) = sep \<or> js_includes cs sep)"

definition endsWith :: "string \<Rightarrow> string \<Rightarrow> bool" where
  "endsWith s suffix = (length suffix \<le> length s \<and> drop (length s - length suffix) s = suffix)"

subsection \<open>The name codec\<close>

text \<open>
  Modelled from the spec: \<open>getRouteName\<close> is imported from \<open>../utils\<close>, which is not
  under src/. The spec's codec (4.2) works on the route name as a string, so a string name
  is returned as it is; a symbol is written the way JavaScript prints it and a missing
  name as the text \<open>(null)\<close>.
\<close>

fun getRouteName :: "route_name option \<Rightarrow> string" where
  "getRouteName (Some (NameStr s)) = s"
| "getRouteName (Some (NameSym d)) = ''Symbol('' @ d @ '')''"
| "getRouteName None = ''(null)''"

text \<open>
  Modelled from the spec: \<open>getLocaleRouteName\<close> is imported from \<open>../utils\<close>, which is
  not under src/. Spec 4.2, \<open>encode\<close>: for \<open>no_prefix\<close> the base name is returned
  unchanged; for \<open>prefix_and_default\<close> with the default locale the suffix is the separator
  and \<open>defaultLocaleRouteNameSuffix\<close>; otherwise the separator and the locale.
\<close>

definition getLocaleRouteName ::
  "route_name option \<Rightarrow> string \<Rightarrow> string \<Rightarrow> strategy \<Rightarrow> string \<Rightarrow> string \<Rightarrow> string" where
  "getLocaleRouteName routeName lc defaultLoc strat separator defaultSuffix =
     (if strat = NoPrefix then getRouteName routeName
      else if strat = PrefixAndDefault \<and> lc = defaultLoc
        then getRouteName routeName @ separator @ defaultSuffix
      else getRouteName routeName @ separator @ lc)"

text \<open>\<open>!route.name\<close> is false for a non-empty string and for a symbol.\<close>

definition truthy_name :: "route_name option \<Rightarrow> bool" where
  "truthy_name n =
     (case n of None \<Rightarrow> False | Some (NameStr s) \<Rightarrow> s \<noteq> [] | Some (NameSym _) \<Rightarrow> True)"

text \<open>
  \<open>getRouteBaseName\<close>: the given route, or the current route when none is given
  (also when \<open>null\<close> is given); \<open>undefined\<close> (\<open>None\<close>) when there is no route or
  its name is falsy; else the first piece of the name split at the separator.
\<close>

definition getRouteBaseName :: "routing_proxy \<Rightarrow> resolved_route option \<Rightarrow> string option" where
  "getRouteBaseName this givenRoute =
     (let separator = routesNameSeparator (options this);
          route' = (case givenRoute of Some r \<Rightarrow> Some r | None \<Rightarrow> route this)
      in case route' of
           None \<Rightarrow> None
         | Some r \<Rightarrow>
             if \<not> truthy_name (rname r) then None
             else first_elem (js_split (getRouteName (rname r)) separator))"

subsection \<open>resolveRoute\<close>

text \<open>\<open>locale || getLocale(i18n)\<close>: a missing or empty locale gives the active one.\<close>

definition effective_locale :: "routing_proxy \<Rightarrow> string option \<Rightarrow> string" where
  "effective_locale this lc =
     (case lc of None \<Rightarrow> i18n_locale this | Some l \<Rightarrow> if l = [] then i18n_locale this else l)"

text \<open>
  Lines 146 to 160, the variable \<open>_route\<close>: a string whose first character is a slash is
  parsed into path, query and hash; any other string is a route name; an object is taken
  as it is.
\<close>

definition normalize_route :: "externals \<Rightarrow> route_raw \<Rightarrow> route_location" where
  "normalize_route ext rt =
     (case rt of
        RouteStr s \<Rightarrow>
          if first_elem s = Some CHR ''/'' then
            (let parsed = parsePath ext s;
                 q = parseQuery ext (search parsed)
             in \<lparr>path = Value (pathname parsed), name = Absent, params = None,
                 query = Some q, hash = Some (url_hash parsed), state = None,
                 replace = None, force = None\<rparr>)
          else \<lparr>path = Absent, name = Value (NameStr s), params = None, query = None,
                 hash = None, state = None, replace = None, force = None\<rparr>
      | RouteObj l \<Rightarrow> l)"

text \<open>\<open>'path' in val && !!val.path && !('name' in val)\<close>.\<close>

definition isRouteLocationPathRaw :: "route_location \<Rightarrow> bool" where
  "isRouteLocationPathRaw val =
     (path val \<noteq> Absent \<and> (case path val of Value p \<Rightarrow> p \<noteq> [] | _ \<Rightarrow> False) \<and>
      name val = Absent)"

text \<open>A property inside a template literal: \<open>undefined\<close> prints as that word.\<close>

definition template_string :: "string slot \<Rightarrow> string" where
  "template_string v = (case v of Value p \<Rightarrow> p | _ \<Rightarrow> ''undefined'')"

definition slot_value :: "'a slot \<Rightarrow> 'a option" where
  "slot_value v = (case v of Value x \<Rightarrow> Some x | _ \<Rightarrow> None)"

text \<open>
  Lines 162 to 214: the descriptor \<open>localizedRoute\<close> handed to the router. The discovery
  helper's exception is swallowed and leaves \<open>null\<close>; \<open>getRouteBaseName\<close> then falls
  back to the current route, and reading \<open>resolvedRoute.params\<close> of \<open>null\<close> throws a
  \<open>TypeError\<close> outside every \<open>try\<close>.
\<close>

definition localizedRoute ::
  "externals \<Rightarrow> routing_proxy \<Rightarrow> route_raw \<Rightarrow> string option \<Rightarrow> thrown + route_location" where
  "localizedRoute ext this rt lc =
     (let lc' = effective_locale this lc;
          opts = options this;
          l0 = normalize_route ext rt
      in if isRouteLocationPathRaw l0 then
           (let resolvedRoute =
                  (case utils_resolve this l0 (opt_strategy opts) lc' of
                     Inl _ \<Rightarrow> None
                   | Inr r \<Rightarrow> Some r);
                resolvedRouteName = getRouteBaseName this resolvedRoute
            in case resolvedRouteName of
                 Some n \<Rightarrow>
                   (case resolvedRoute of
                      None \<Rightarrow> Inl TypeError
                    | Some r \<Rightarrow>
                        Inr \<lparr>path = Absent,
                             name = Value (NameStr (getLocaleRouteName (Some (NameStr n)) lc'
                               (opt_defaultLocale opts) (opt_strategy opts)
                               (routesNameSeparator opts) (defaultLocaleRouteNameSuffix opts))),
                             params = Some (rparams r), query = Some (rquery r),
                             hash = Some (rhash r), state = rstate r,
                             replace = None, force = None\<rparr>)
               | None \<Rightarrow>
                   (let p1 = (if opt_prefixable opts
                                   \<lparr>currentLocale = lc', defaultLocale = opt_defaultLocale opts,
                                    strategy = opt_strategy opts\<rparr>
                              then ''/'' @ lc' @ template_string (path l0)
                              else template_string (path l0));
                        p2 = (if trailingSlash opts then withTrailingSlash ext p1 True
                              else withoutTrailingSlash ext p1 True)
                    in Inr (l0\<lparr>path := Value p2\<rparr>)))
         else
           (let l1 = (if \<not> truthy_name (slot_value (name l0)) \<and> path l0 = Absent
                      then l0\<lparr>name := (case getRouteBaseName this (route this) of
                                          Some n \<Rightarrow> Value (NameStr n)
                                        | None \<Rightarrow> Undefined)\<rparr>
                      else l0)
            in Inr (l1\<lparr>name := Value (NameStr (getLocaleRouteName (slot_value (name l1)) lc'
                       (opt_defaultLocale opts) (opt_strategy opts)
                       (routesNameSeparator opts) (defaultLocaleRouteNameSuffix opts)))\<rparr>)))"

text \<open>
  The \<open>catch\<close> of lines 224 to 229. \<open>typeof e === 'object' && 'type' in e && e.type === 1\<close>
  returns \<open>null\<close>; for \<open>null\<close> itself the \<open>in\<close> throws a \<open>TypeError\<close>; in every
  other case the handler ends without a \<open>return\<close> or a \<open>throw\<close>, so the function
  returns \<open>undefined\<close>.
\<close>

definition catch_final :: "thrown \<Rightarrow> thrown + resolve_result" where
  "catch_final e =
     (case e of
        ThrownNull \<Rightarrow> Inl TypeError
      | ThrownPrimitive _ \<Rightarrow> Inr ResultUndefined
      | ThrownObject t \<Rightarrow> if t = Some 1 then Inr ResultNull else Inr ResultUndefined)"

text \<open>Lines 216 to 223: the \<open>try\<close> block, for the descriptor \<open>lr\<close> and the original route.\<close>

definition final_resolve ::
  "routing_proxy \<Rightarrow> route_location \<Rightarrow> route_raw \<Rightarrow> thrown + resolve_result" where
  "final_resolve this lr rt =
     (case router_resolve this (RouteObj lr) of
        Inl e \<Rightarrow> catch_final e
      | Inr resolvedRoute \<Rightarrow>
          if truthy_name (rname resolvedRoute) then Inr (Resolved resolvedRoute)
          else (case router_resolve this rt of
                  Inl e \<Rightarrow> catch_final e
                | Inr r \<Rightarrow> Inr (Resolved r)))"

definition resolveRoute ::
  "externals \<Rightarrow> routing_proxy \<Rightarrow> route_raw \<Rightarrow> string option \<Rightarrow> thrown + resolve_result" where
  "resolveRoute ext this rt lc =
     (case localizedRoute ext this rt lc of
        Inl e \<Rightarrow> Inl e
      | Inr lr \<Rightarrow> final_resolve this lr rt)"

text \<open>\<open>localizedRoute.redirectedFrom?.fullPath || localizedRoute.fullPath\<close>, or the empty string.\<close>

definition localePath ::
  "externals \<Rightarrow> routing_proxy \<Rightarrow> route_raw \<Rightarrow> string option \<Rightarrow> thrown + string" where
  "localePath ext this rt lc =
     (case resolveRoute ext this rt lc of
        Inl e \<Rightarrow> Inl e
      | Inr (Resolved r) \<Rightarrow>
          Inr (case redirectedFrom r of
                 Some fp \<Rightarrow> if fp \<noteq> [] then fp else rfullPath r
               | None \<Rightarrow> rfullPath r)
      | Inr _ \<Rightarrow> Inr [])"

text \<open>\<open>localeRoute\<close> and \<open>localeLocation\<close>: \<open>undefined\<close> (\<open>None\<close>) for \<open>null\<close> and \<open>undefined\<close>.\<close>

definition localeRoute ::
  "externals \<Rightarrow> routing_proxy \<Rightarrow> route_raw \<Rightarrow> string option \<Rightarrow> thrown + resolved_route option" where
  "localeRoute ext this rt lc =
     (case resolveRoute ext this rt lc of
        Inl e \<Rightarrow> Inl e
      | Inr (Resolved r) \<Rightarrow> Inr (Some r)
      | Inr _ \<Rightarrow> Inr None)"

definition localeLocation ::
  "externals \<Rightarrow> routing_proxy \<Rightarrow> route_raw \<Rightarrow> string option \<Rightarrow> thrown + resolved_route option" where
  "localeLocation ext this rt lc =
     (case resolveRoute ext this rt lc of
        Inl e \<Rightarrow> Inl e
      | Inr (Resolved r) \<Rightarrow> Inr (Some r)
      | Inr _ \<Rightarrow> Inr None)"

subsection \<open>switchLocalePath\<close>

definition DefaultSwitchLocalePathIntercepter :: "string \<Rightarrow> string \<Rightarrow> string" where
  "DefaultSwitchLocalePathIntercepter p lc = p"

definition getLocalizableMetaFromDynamicParams ::
  "externals \<Rightarrow> resolved_route \<Rightarrow> string \<Rightarrow> (string \<rightharpoonup> params)" where
  "getLocalizableMetaFromDynamicParams ext rt key =
     (let metaDefault = Map.empty
      in if key = DEFAULT_DYNAMIC_PARAMS_KEY ext then metaDefault
         else (case meta rt of
                 MetaRef m \<Rightarrow> (case m key of Some v \<Rightarrow> v | None \<Rightarrow> metaDefault)
               | MetaPlain m \<Rightarrow> (case m key of Some v \<Rightarrow> v | None \<Rightarrow> metaDefault)))"

text \<open>
  Modelled from the spec: \<open>routeToObject\<close> is imported from \<open>./utils\<close>, which is not
  under src/. Spec 4.5, step 4: the candidate route has the current route's fields; the
  copy keeps those a route reference has.
\<close>

definition routeToObject :: "resolved_route \<Rightarrow> route_location" where
  "routeToObject r =
     \<lparr>path = Value (rpath r),
      name = (case rname r of Some n \<Rightarrow> Value n | None \<Rightarrow> Undefined),
      params = Some (rparams r), query = Some (rquery r), hash = Some (rhash r),
      state = None, replace = None, force = None\<rparr>"

text \<open>Lines 282 to 285: \<open>langSwitchParamsIntercepted ?? langSwitchParams ?? {}\<close>.\<close>

definition resolvedParams :: "externals \<Rightarrow> routing_proxy \<Rightarrow> resolved_route \<Rightarrow> string \<Rightarrow> params" where
  "resolvedParams ext this routeValue lc =
     (let opts = options this;
          langSwitchParamsIntercepted =
            (case dynamicParamsInterceptor opts of None \<Rightarrow> None | Some v \<Rightarrow> v lc);
          langSwitchParams =
            (case getLocalizableMetaFromDynamicParams ext routeValue (dynamicRouteParamsKey opts) lc of
               Some p \<Rightarrow> p
             | None \<Rightarrow> Map.empty)
      in case langSwitchParamsIntercepted of Some p \<Rightarrow> p | None \<Rightarrow> langSwitchParams)"

text \<open>
  Lines 280 to 296: \<open>assign({}, routeCopy, {name, params: {...routeCopy.params, ...resolvedParams}})\<close>.
\<close>

definition baseRoute ::
  "externals \<Rightarrow> routing_proxy \<Rightarrow> resolved_route \<Rightarrow> string \<Rightarrow> string \<Rightarrow> route_location" where
  "baseRoute ext this routeValue nm lc =
     (let routeCopy = routeToObject routeValue
      in routeCopy\<lparr>name := Value (NameStr nm),
                   params := Some ((case params routeCopy of Some ps \<Rightarrow> ps | None \<Rightarrow> Map.empty)
                                   ++ resolvedParams ext this routeValue lc)\<rparr>)"

definition switchLocalePath :: "externals \<Rightarrow> routing_proxy \<Rightarrow> string \<Rightarrow> thrown + string" where
  "switchLocalePath ext this lc =
     (case getRouteBaseName this (route this) of
        None \<Rightarrow> Inr []
      | Some nm \<Rightarrow>
          if nm = [] then Inr []
          else (case route this of
                  None \<Rightarrow> Inl TypeError
                | Some routeValue \<Rightarrow>
                    (case localePath ext this (RouteObj (baseRoute ext this routeValue nm lc)) (Some lc) of
                       Inl e \<Rightarrow> Inl e
                     | Inr p \<Rightarrow> Inr (switchLocalePathIntercepter (options this) p lc))))"

subsection \<open>The path helpers as the spec reads them\<close>

text \<open>
  Modelled from the spec: \<open>withTrailingSlash\<close> belongs to the URL library, which is not
  under src/. Spec 4.4, step 3c: append a trailing slash; a path that already ends with
  one is left as it is. The second argument is the flag the source passes.
\<close>

definition withTrailingSlash_spec :: "string \<Rightarrow> bool \<Rightarrow> string" where
  "withTrailingSlash_spec input flag = (if endsWith input ''/'' then input else input @ ''/'')"

text \<open>
  Modelled from the spec: \<open>withoutTrailingSlash\<close> belongs to the URL library, which is
  not under src/. Spec 4.4, step 3c: strip a trailing slash; a path that ends with none is
  left as it is.
\<close>

definition withoutTrailingSlash_spec :: "string \<Rightarrow> bool \<Rightarrow> string" where
  "withoutTrailingSlash_spec input flag = (if endsWith input ''/'' then butlast input else input)"

subsection \<open>An example configuration\<close>

text \<open>
  A small application used to run the definitions: strategy \<open>prefix\<close>, default locale
  \<open>en\<close>, the separator of three underscores, and a router that knows the two named
  routes \<open>about___fr\<close> and \<open>post___fr\<close>. As a router does, it throws the no-match
  failure for an unknown name and resolves an unknown path to a route without a name.
\<close>

definition example_externals :: externals where
  "example_externals =
     \<lparr>parsePath = (\<lambda>s. \<lparr>pathname = s, search = [], url_hash = []\<rparr>),
      parseQuery = (\<lambda>s. Map.empty),
      withTrailingSlash = withTrailingSlash_spec,
      withoutTrailingSlash = withoutTrailingSlash_spec,
      DEFAULT_DYNAMIC_PARAMS_KEY = []\<rparr>"

definition example_options :: routing_options where
  "example_options =
     \<lparr>opt_defaultLocale = ''en'', opt_strategy = Prefix, routesNameSeparator = ''___'',
      defaultLocaleRouteNameSuffix = ''default'', trailingSlash = False,
      opt_prefixable = DefaultPrefixable,
      switchLocalePathIntercepter = DefaultSwitchLocalePathIntercepter,
      dynamicRouteParamsKey = ''nuxtI18n'', dynamicParamsInterceptor = None\<rparr>"

definition example_route :: "route_name option \<Rightarrow> string \<Rightarrow> params \<Rightarrow> resolved_route" where
  "example_route n p ps =
     \<lparr>rname = n, rpath = p, rfullPath = p, rparams = ps, rquery = Map.empty, rhash = [],
      rstate = None, redirectedFrom = None, meta = MetaPlain Map.empty\<rparr>"

definition example_router :: "route_raw \<Rightarrow> thrown + resolved_route" where
  "example_router rt =
     (case rt of
        RouteStr s \<Rightarrow> Inr (example_route None s Map.empty)
      | RouteObj l \<Rightarrow>
          (case name l of
             Value n \<Rightarrow>
               if n = NameStr ''about___fr''
                 then Inr (example_route (Some n) ''/fr/about'' Map.empty)
               else if n = NameStr ''post___fr''
                 then Inr (example_route (Some n) ''/fr/post''
                        (case params l of Some ps \<Rightarrow> ps | None \<Rightarrow> Map.empty))
               else Inl (ThrownObject (Some 1))
           | _ \<Rightarrow> Inr (example_route None (template_string (path l)) Map.empty)))"

text \<open>
  The current route: the page \<open>post___en\<close> with two parameters. Its \<open>meta\<close>, behind
  a reference, holds an override of \<open>slug\<close> for locale \<open>fr\<close> under the key
  \<open>nuxtI18n\<close>, and another one under the empty key, the default key of the example.
\<close>

definition example_meta :: route_meta where
  "example_meta = [''nuxtI18n'' \<mapsto> [''fr'' \<mapsto> [''slug'' \<mapsto> PStr ''bonjour'']],
                   [] \<mapsto> [''fr'' \<mapsto> [''slug'' \<mapsto> PStr ''salut'']]]"

definition example_current :: resolved_route where
  "example_current =
     (example_route (Some (NameStr ''post___en'')) ''/en/post''
        [''slug'' \<mapsto> PStr ''hello'', ''id'' \<mapsto> PStr ''7''])\<lparr>meta := MetaRef example_meta\<rparr>"

definition example_proxy :: routing_proxy where
  "example_proxy =
     \<lparr>router_resolve = example_router,
      utils_resolve = (\<lambda>l strat lc. example_router (RouteObj l)),
      route = Some example_current,
      i18n_locale = ''en'',
      options = example_options\<rparr>"

definition path_location :: "string \<Rightarrow> route_location" where
  "path_location p =
     \<lparr>path = Value p, name = Absent, params = None, query = None, hash = None,
      state = None, replace = None, force = None\<rparr>"

section \<open>Properties\<close>

subsection \<open>Strings\<close>

lemma js_includes_empty_sep: "js_includes s []"
  by (cases s) simp_all

lemma take_sep_overlap:
  assumes "sep \<noteq> []" and "take (length sep) (b @ sep @ rest) = sep" and "b \<noteq> []"
  shows "take (length sep) (b @ butlast sep) = sep"
proof -
  have len: "length sep \<le> length (b @ butlast sep)"
    using assms(1,3) by (cases b) simp_all
  have "b @ sep @ rest = (b @ butlast sep) @ ([last sep] @ rest)"
    using assms(1) by simp
  then have "take (length sep) (b @ sep @ rest) = take (length sep) (b @ butlast sep)"
    using len by (metis append_eq_conv_conj take_take min.absorb1)
  then show ?thesis using assms(2) by simp
qed

text \<open>
  When the separator does not occur in \<open>b\<close> followed by the separator without its last
  character, the first occurrence of the separator in \<open>b @ sep @ rest\<close> is the one
  right after \<open>b\<close>.
\<close>

lemma split_from_first:
  assumes "sep \<noteq> []"
  shows "\<not> js_includes (b @ butlast sep) sep \<Longrightarrow>
    first_elem (split_from sep acc (b @ sep @ rest)) = Some (rev acc @ b)"
proof (induction b arbitrary: acc)
  case Nil
  obtain p ps where sep: "sep = p # ps" using assms by (cases sep) auto
  show ?case by (simp add: sep first_elem_def)
next
  case (Cons c cs)
  from Cons.prems have no_here: "take (length sep) ((c # cs) @ butlast sep) \<noteq> sep"
    and rest_free: "\<not> js_includes (cs @ butlast sep) sep"
    by simp_all
  have "take (length sep) ((c # cs) @ sep @ rest) \<noteq> sep"
    using take_sep_overlap[OF assms, of "c # cs" rest] no_here by blast
  then have "split_from sep acc ((c # cs) @ sep @ rest) = split_from sep (c # acc) (cs @ sep @ rest)"
    by simp
  then show ?case using Cons.IH[OF rest_free, of "c # acc"] by simp
qed

lemma split_from_whole:
  assumes "sep \<noteq> []"
  shows "\<not> js_includes b sep \<Longrightarrow> split_from sep acc b = [rev acc @ b]"
  by (induction b arbitrary: acc) simp_all

lemma js_split_first_suffixed:
  assumes "\<not> js_includes (b @ butlast sep) sep"
  shows "first_elem (js_split (b @ sep @ rest) sep) = Some b"
proof -
  have "sep \<noteq> []" using assms js_includes_empty_sep by auto
  then show ?thesis using split_from_first[of sep b "[]" rest] assms by (simp add: js_split_def)
qed

lemma js_split_first_plain:
  assumes "\<not> js_includes b sep"
  shows "first_elem (js_split b sep) = Some b"
proof -
  have "sep \<noteq> []" using assms js_includes_empty_sep by auto
  then show ?thesis using split_from_whole[of sep b "[]"] assms by (simp add: js_split_def first_elem_def)
qed

subsection \<open>Unfolding the model and the example\<close>

lemmas example_defs = example_externals_def example_proxy_def example_options_def
  example_route_def example_router_def path_location_def example_current_def example_meta_def

lemmas model_defs = localizedRoute_def normalize_route_def isRouteLocationPathRaw_def
  effective_locale_def getRouteBaseName_def truthy_name_def template_string_def slot_value_def
  first_elem_def js_split_def getLocaleRouteName_def DefaultPrefixable_def prefixable_def
  RESOLVED_PREFIXED_def withTrailingSlash_spec_def withoutTrailingSlash_spec_def endsWith_def
  resolveRoute_def final_resolve_def catch_final_def localePath_def

lemmas switch_defs = switchLocalePath_def baseRoute_def resolvedParams_def routeToObject_def
  getLocalizableMetaFromDynamicParams_def DefaultSwitchLocalePathIntercepter_def

subsection \<open>Prefix policy\<close>

text \<open>
  C2. For every current locale, default locale and strategy, the default \<open>prefixable\<close>
  predicate is false for strategy \<open>no_prefix\<close>, whether or not the locales are equal;
  false when the current locale equals the default locale and the strategy is
  \<open>prefix_and_default\<close> or \<open>prefix_except_default\<close>; and true in every other case, so
  always true for strategy \<open>prefix\<close>.
\<close>

theorem prefixable_rule:
  "prefixable \<lparr>currentLocale = c, defaultLocale = d, strategy = NoPrefix\<rparr> = False \<and>
   prefixable \<lparr>currentLocale = d, defaultLocale = d, strategy = PrefixAndDefault\<rparr> = False \<and>
   prefixable \<lparr>currentLocale = d, defaultLocale = d, strategy = PrefixExceptDefault\<rparr> = False \<and>
   prefixable \<lparr>currentLocale = c, defaultLocale = d, strategy = Prefix\<rparr> = True \<and>
   prefixable \<lparr>currentLocale = c, defaultLocale = d, strategy = s\<rparr> =
     (if s = NoPrefix then False
      else if c = d \<and> (s = PrefixAndDefault \<or> s = PrefixExceptDefault) then False
      else True) \<and>
   DefaultPrefixable = prefixable"
  by (cases s) (simp_all add: prefixable_def RESOLVED_PREFIXED_def DefaultPrefixable_def)

subsection \<open>The name codec\<close>

text \<open>
  C3, as the code has it. The spec's condition, that the base name \<open>b\<close> does not contain
  the separator, is enough only for strategy \<open>no_prefix\<close>, where nothing is appended.
  For the other strategies the separator must not occur in \<open>b\<close> followed by the
  separator without its last character, that is, no occurrence of the separator may begin
  inside \<open>b\<close>. Then splitting the encoded name at the separator and taking the first
  piece gives \<open>b\<close> back, and so does \<open>getRouteBaseName\<close> on a route that carries the
  encoded name, when that name is not empty.
\<close>

theorem base_name_roundtrip:
  assumes "\<not> js_includes (if strat = NoPrefix then b else b @ butlast sep) sep"
  shows "first_elem (js_split (getLocaleRouteName (Some (NameStr b)) lc dl strat sep suffix) sep) = Some b \<and>
         (getLocaleRouteName (Some (NameStr b)) lc dl strat sep suffix \<noteq> [] \<longrightarrow>
          getRouteBaseName (this\<lparr>options := (options this)\<lparr>routesNameSeparator := sep\<rparr>\<rparr>)
            (Some (r\<lparr>rname := Some (NameStr (getLocaleRouteName (Some (NameStr b)) lc dl strat sep suffix))\<rparr>))
          = Some b)"
proof -
  let ?enc = "getLocaleRouteName (Some (NameStr b)) lc dl strat sep suffix"
  have split: "first_elem (js_split ?enc sep) = Some b"
  proof (cases "strat = NoPrefix")
    case True
    then show ?thesis using assms js_split_first_plain[of b sep]
      by (simp add: getLocaleRouteName_def)
  next
    case False
    then have free: "\<not> js_includes (b @ butlast sep) sep" using assms by simp
    show ?thesis
      using False js_split_first_suffixed[OF free, of suffix] js_split_first_suffixed[OF free, of lc]
      by (simp add: getLocaleRouteName_def)
  qed
  then show ?thesis
    by (simp add: getRouteBaseName_def truthy_name_def)
qed

text \<open>
  The base name \<open>post\<close>, locale \<open>fr\<close>, strategy \<open>prefix\<close>: the encoded name is
  \<open>post___fr\<close> and its base name is \<open>post\<close>.
\<close>

theorem base_name_roundtrip_witness:
  "\<not> js_includes (''post'' @ butlast ''___'') ''___'' \<and>
   getLocaleRouteName (Some (NameStr ''post'')) ''fr'' ''en'' Prefix ''___'' ''default'' = ''post___fr'' \<and>
   getRouteBaseName example_proxy (Some (example_route (Some (NameStr ''post___fr'')) ''/fr/post'' Map.empty))
     = Some ''post''"
proof -
  have free: "\<not> js_includes (if Prefix = NoPrefix then ''post'' else ''post'' @ butlast ''___'') ''___''"
    by simp
  have enc: "getLocaleRouteName (Some (NameStr ''post'')) ''fr'' ''en'' Prefix ''___'' ''default'' = ''post___fr''"
    by (simp add: getLocaleRouteName_def)
  have "getRouteBaseName (example_proxy\<lparr>options := (options example_proxy)\<lparr>routesNameSeparator := ''___''\<rparr>\<rparr>)
          (Some ((example_route None ''/fr/post'' Map.empty)\<lparr>rname := Some (NameStr ''post___fr'')\<rparr>))
        = Some ''post''"
    using base_name_roundtrip[OF free, of "''fr''" "''en''" "''default''" example_proxy
        "example_route None ''/fr/post'' Map.empty"]
    by (simp add: enc)
  then show ?thesis
    by (simp add: enc example_proxy_def example_options_def example_route_def)
qed

text \<open>
  C3 as the spec states it fails: the base name \<open>a_\<close> does not contain the separator
  \<open>___\<close>, its encoded name for locale \<open>fr\<close> is \<open>a____fr\<close>, and the first occurrence
  of the separator there begins at the second character, so the base name read back is
  \<open>a\<close>.
\<close>

theorem base_name_roundtrip_counterexample:
  "\<not> js_includes ''a_'' ''___'' \<and>
   getLocaleRouteName (Some (NameStr ''a_'')) ''fr'' ''en'' Prefix ''___'' ''default'' = ''a____fr'' \<and>
   first_elem (js_split ''a____fr'' ''___'') = Some ''a'' \<and>
   getRouteBaseName example_proxy (Some (example_route (Some (NameStr ''a____fr'')) ''/fr/a_'' Map.empty))
     = Some ''a'' \<and>
   ''a'' \<noteq> ''a_''"
  by (simp add: getLocaleRouteName_def js_split_def first_elem_def getRouteBaseName_def
      truthy_name_def example_proxy_def example_options_def example_route_def)

subsection \<open>The route normalizer\<close>

text \<open>
  C7. The route normalizer maps a string that begins with a slash to the descriptor with
  the path, the parsed query (a map from keys to a value or a list of values) and the hash
  that \<open>parsePath\<close> and \<open>parseQuery\<close> give; every other string \<open>s\<close>, the empty one
  included, to the descriptor with the single property \<open>name: s\<close>; and an object to
  itself.
\<close>

theorem normalize_route_cases:
  "normalize_route ext (RouteStr (CHR ''/'' # cs)) =
     \<lparr>path = Value (pathname (parsePath ext (CHR ''/'' # cs))), name = Absent, params = None,
      query = Some (parseQuery ext (search (parsePath ext (CHR ''/'' # cs)))),
      hash = Some (url_hash (parsePath ext (CHR ''/'' # cs))),
      state = None, replace = None, force = None\<rparr> \<and>
   (s = [] \<or> hd s \<noteq> CHR ''/'' \<longrightarrow>
      normalize_route ext (RouteStr s) =
        \<lparr>path = Absent, name = Value (NameStr s), params = None, query = None, hash = None,
         state = None, replace = None, force = None\<rparr>) \<and>
   normalize_route ext (RouteObj l) = l"
  by (cases s) (simp_all add: normalize_route_def first_elem_def Let_def)

text \<open>In the example: the strings \<open>/about\<close> and \<open>about\<close>, the empty string, and an object.\<close>

theorem normalize_route_cases_witness:
  "normalize_route example_externals (RouteStr ''/about'') =
     \<lparr>path = Value ''/about'', name = Absent, params = None, query = Some Map.empty,
      hash = Some [], state = None, replace = None, force = None\<rparr> \<and>
   normalize_route example_externals (RouteStr ''about'') =
     \<lparr>path = Absent, name = Value (NameStr ''about''), params = None, query = None, hash = None,
      state = None, replace = None, force = None\<rparr> \<and>
   normalize_route example_externals (RouteStr []) =
     \<lparr>path = Absent, name = Value (NameStr []), params = None, query = None, hash = None,
      state = None, replace = None, force = None\<rparr> \<and>
   normalize_route example_externals (RouteObj (path_location ''/about'')) = path_location ''/about''"
  using normalize_route_cases[of example_externals "''about''" "''about''" "path_location ''/about''"]
    normalize_route_cases[of example_externals "''about''" "[]" "path_location ''/about''"]
  by (simp add: example_externals_def)

subsection \<open>Localizing a path without a named route\<close>

lemma isRouteLocationPathRaw_path:
  "isRouteLocationPathRaw l \<Longrightarrow> \<exists>p. path l = Value p \<and> p \<noteq> [] \<and> name l = Absent"
  by (cases "path l") (simp_all add: isRouteLocationPathRaw_def)

lemma getRouteBaseName_unnamed:
  "\<not> truthy_name (rname r) \<Longrightarrow> getRouteBaseName this (Some r) = None"
  by (simp add: getRouteBaseName_def)

lemma localizedRoute_path_branch:
  assumes raw: "isRouteLocationPathRaw (normalize_route ext rt)"
      and disc: "utils_resolve this (normalize_route ext rt) (opt_strategy (options this))
                   (effective_locale this lc) = Inr r"
      and unnamed: "\<not> truthy_name (rname r)"
      and p: "path (normalize_route ext rt) = Value p"
  shows "localizedRoute ext this rt lc =
           Inr ((normalize_route ext rt)\<lparr>path := Value
             (let p1 = (if opt_prefixable (options this)
                             \<lparr>currentLocale = effective_locale this lc,
                              defaultLocale = opt_defaultLocale (options this),
                              strategy = opt_strategy (options this)\<rparr>
                        then ''/'' @ effective_locale this lc @ p else p)
              in if trailingSlash (options this) then withTrailingSlash ext p1 True
                 else withoutTrailingSlash ext p1 True)\<rparr>)"
  using raw disc p getRouteBaseName_unnamed[OF unnamed, of this]
  by (simp add: localizedRoute_def Let_def template_string_def)

text \<open>
  When the discovery helper throws, the swallowed exception leaves \<open>null\<close>, the base
  name read is the current route's, and if there is one the read of \<open>params\<close> throws.
\<close>

lemma localizedRoute_discovery_throws:
  assumes "isRouteLocationPathRaw (normalize_route ext rt)"
      and "utils_resolve this (normalize_route ext rt) (opt_strategy (options this))
             (effective_locale this lc) = Inl e"
      and "getRouteBaseName this None = Some n"
  shows "localizedRoute ext this rt lc = Inl TypeError \<and> resolveRoute ext this rt lc = Inl TypeError"
  using assms by (simp add: localizedRoute_def resolveRoute_def Let_def)

lemma endsWith_slash_iff: "endsWith s ''/'' \<longleftrightarrow> s \<noteq> [] \<and> last s = CHR ''/''"
  by (cases s rule: rev_cases) (simp_all add: endsWith_def)

lemma endsWith_two_slashes_iff:
  "endsWith s ''//'' \<longleftrightarrow> s \<noteq> [] \<and> last s = CHR ''/'' \<and> butlast s \<noteq> [] \<and> last (butlast s) = CHR ''/''"
proof (cases s rule: rev_cases)
  case Nil
  then show ?thesis by (simp add: endsWith_def)
next
  case (snoc ys y)
  show ?thesis
  proof (cases ys rule: rev_cases)
    case Nil
    then show ?thesis using snoc by (simp add: endsWith_def)
  next
    case (snoc zs z)
    then show ?thesis using \<open>s = ys @ [y]\<close> by (auto simp add: endsWith_def butlast_append)
  qed
qed

lemma withTrailingSlash_spec_ends: "endsWith (withTrailingSlash_spec s f) ''/''"
  by (simp add: withTrailingSlash_spec_def endsWith_slash_iff)

lemma withoutTrailingSlash_spec_ends:
  "endsWith (withoutTrailingSlash_spec s f) ''/'' \<longleftrightarrow> endsWith s ''//''"
  by (auto simp add: withoutTrailingSlash_spec_def endsWith_slash_iff endsWith_two_slashes_iff)

text \<open>
  C1, as the code has it. For a path-based route reference (a non-empty \<open>path\<close> and no
  \<open>name\<close> key) for which the discovery helper returns a route without a name (or with
  an empty one), the descriptor handed to the router is the normalized reference with its
  path replaced: \<open>/<locale>\<close> is prepended exactly when the configured \<open>prefixable\<close>
  predicate holds for the effective locale, the default locale and the strategy, and the
  result is what \<open>withTrailingSlash\<close> makes of it when \<open>trailingSlash\<close> is set and
  what \<open>withoutTrailingSlash\<close> makes of it otherwise, whatever these two helpers
  compute. Where the helper does at that path what the spec reads it to do (append a slash
  unless the path ends with one; strip one slash when the path ends with one), the path
  ends with a slash when \<open>trailingSlash\<close> is set; when it is not set, the path still
  ends with a slash exactly when it ended with two.
\<close>

theorem resolveRoute_unnamed_path:
  assumes raw: "isRouteLocationPathRaw (normalize_route ext rt)"
      and disc: "utils_resolve this (normalize_route ext rt) (opt_strategy (options this))
                   (effective_locale this lc) = Inr r"
      and unnamed: "\<not> truthy_name (rname r)"
  shows "\<exists>p q. path (normalize_route ext rt) = Value p \<and> p \<noteq> [] \<and>
           localizedRoute ext this rt lc = Inr ((normalize_route ext rt)\<lparr>path := Value q\<rparr>) \<and>
           resolveRoute ext this rt lc =
             final_resolve this ((normalize_route ext rt)\<lparr>path := Value q\<rparr>) rt \<and>
           (let p1 = (if opt_prefixable (options this)
                           \<lparr>currentLocale = effective_locale this lc,
                            defaultLocale = opt_defaultLocale (options this),
                            strategy = opt_strategy (options this)\<rparr>
                      then ''/'' @ effective_locale this lc @ p else p)
            in q = (if trailingSlash (options this) then withTrailingSlash ext p1 True
                    else withoutTrailingSlash ext p1 True) \<and>
               (trailingSlash (options this) \<and>
                withTrailingSlash ext p1 True = withTrailingSlash_spec p1 True
                  \<longrightarrow> endsWith q ''/'') \<and>
               (\<not> trailingSlash (options this) \<and>
                withoutTrailingSlash ext p1 True = withoutTrailingSlash_spec p1 True
                  \<longrightarrow> endsWith q ''/'' = endsWith p1 ''//''))"
proof -
  from isRouteLocationPathRaw_path[OF raw] obtain p
    where p: "path (normalize_route ext rt) = Value p" and ne: "p \<noteq> []" by blast
  let ?p1 = "if opt_prefixable (options this)
                           \<lparr>currentLocale = effective_locale this lc,
                            defaultLocale = opt_defaultLocale (options this),
                            strategy = opt_strategy (options this)\<rparr>
                      then ''/'' @ effective_locale this lc @ p else p"
  let ?q = "if trailingSlash (options this) then withTrailingSlash ext ?p1 True
            else withoutTrailingSlash ext ?p1 True"
  have loc: "localizedRoute ext this rt lc = Inr ((normalize_route ext rt)\<lparr>path := Value ?q\<rparr>)"
    using localizedRoute_path_branch[OF raw disc unnamed p] by (simp add: Let_def)
  have res: "resolveRoute ext this rt lc =
      final_resolve this ((normalize_route ext rt)\<lparr>path := Value ?q\<rparr>) rt"
    by (simp add: resolveRoute_def loc)
  have on: "trailingSlash (options this) \<and>
            withTrailingSlash ext ?p1 True = withTrailingSlash_spec ?p1 True
              \<longrightarrow> endsWith ?q ''/''"
    using withTrailingSlash_spec_ends[of ?p1 True] by simp
  have off: "\<not> trailingSlash (options this) \<and>
             withoutTrailingSlash ext ?p1 True = withoutTrailingSlash_spec ?p1 True
               \<longrightarrow> endsWith ?q ''/'' = endsWith ?p1 ''//''"
    using withoutTrailingSlash_spec_ends[of ?p1 True] by simp
  show ?thesis
    apply (rule exI[of _ p])
    apply (rule exI[of _ ?q])
    using p ne loc res on off by (simp add: Let_def)
qed

text \<open>
  The scenario of the spec: strategy \<open>prefix\<close>, path \<open>/about\<close> with no named route,
  locale \<open>fr\<close>, no trailing slash: the localized path is \<open>/fr/about\<close>, which does not
  end with a slash. And, with strategy \<open>no_prefix\<close> and a helper that keeps the root
  path, the path \<open>/\<close> stays \<open>/\<close>.
\<close>

theorem resolveRoute_unnamed_path_witness:
  "isRouteLocationPathRaw (normalize_route example_externals (RouteObj (path_location ''/about''))) \<and>
   opt_strategy (options example_proxy) = Prefix \<and> \<not> trailingSlash (options example_proxy) \<and>
   localizedRoute example_externals example_proxy (RouteObj (path_location ''/about'')) (Some ''fr'')
     = Inr (path_location ''/fr/about'') \<and>
   \<not> endsWith ''/fr/about'' ''/'' \<and>
   localizedRoute
     (example_externals\<lparr>withoutTrailingSlash :=
        (\<lambda>input flag. if input = ''/'' then ''/'' else withoutTrailingSlash_spec input flag)\<rparr>)
     (example_proxy\<lparr>options := example_options\<lparr>opt_strategy := NoPrefix\<rparr>\<rparr>)
     (RouteObj (path_location ''/'')) (Some ''fr'')
     = Inr (path_location ''/'')"
proof -
  let ?rt = "RouteObj (path_location ''/about'')"
  have raw: "isRouteLocationPathRaw (normalize_route example_externals ?rt)"
    by (simp add: example_defs model_defs)
  have disc: "utils_resolve example_proxy (normalize_route example_externals ?rt)
                (opt_strategy (options example_proxy)) (effective_locale example_proxy (Some ''fr''))
              = Inr (example_route None ''/about'' Map.empty)"
    by (simp add: example_defs model_defs)
  have unnamed: "\<not> truthy_name (rname (example_route None ''/about'' Map.empty))"
    by (simp add: example_defs model_defs)
  from resolveRoute_unnamed_path[OF raw disc unnamed]
  obtain p q where p: "path (normalize_route example_externals ?rt) = Value p"
    and loc: "localizedRoute example_externals example_proxy ?rt (Some ''fr'')
              = Inr ((normalize_route example_externals ?rt)\<lparr>path := Value q\<rparr>)"
    and q: "(let p1 = (if opt_prefixable (options example_proxy)
                           \<lparr>currentLocale = effective_locale example_proxy (Some ''fr''),
                            defaultLocale = opt_defaultLocale (options example_proxy),
                            strategy = opt_strategy (options example_proxy)\<rparr>
                      then ''/'' @ effective_locale example_proxy (Some ''fr'') @ p else p)
            in q = (if trailingSlash (options example_proxy)
                    then withTrailingSlash example_externals p1 True
                    else withoutTrailingSlash example_externals p1 True) \<and>
               (trailingSlash (options example_proxy) \<and>
                withTrailingSlash example_externals p1 True = withTrailingSlash_spec p1 True
                  \<longrightarrow> endsWith q ''/'') \<and>
               (\<not> trailingSlash (options example_proxy) \<and>
                withoutTrailingSlash example_externals p1 True = withoutTrailingSlash_spec p1 True
                  \<longrightarrow> endsWith q ''/'' = endsWith p1 ''//''))"
    by blast
  from p have p': "p = ''/about''" by (simp add: example_defs model_defs)
  from q have q': "q = ''/fr/about''" unfolding p' by (simp add: example_defs model_defs)
  from q have "endsWith q ''/'' = endsWith ''/fr/about'' ''//''"
    unfolding p' by (simp add: example_defs model_defs)
  then have ends: "\<not> endsWith ''/fr/about'' ''/''"
    unfolding q' by (simp add: endsWith_def)
  have first: "localizedRoute example_externals example_proxy ?rt (Some ''fr'')
                 = Inr (path_location ''/fr/about'')"
    using loc unfolding q' by (simp add: example_defs model_defs)
  let ?ext = "example_externals\<lparr>withoutTrailingSlash :=
        (\<lambda>input flag. if input = ''/'' then ''/'' else withoutTrailingSlash_spec input flag)\<rparr>"
  let ?proxy = "example_proxy\<lparr>options := example_options\<lparr>opt_strategy := NoPrefix\<rparr>\<rparr>"
  let ?root = "RouteObj (path_location ''/'')"
  have raw2: "isRouteLocationPathRaw (normalize_route ?ext ?root)"
    by (simp add: example_defs model_defs)
  have disc2: "utils_resolve ?proxy (normalize_route ?ext ?root)
                 (opt_strategy (options ?proxy)) (effective_locale ?proxy (Some ''fr''))
               = Inr (example_route None ''/'' Map.empty)"
    by (simp add: example_defs model_defs)
  have unnamed2: "\<not> truthy_name (rname (example_route None ''/'' Map.empty))"
    by (simp add: example_defs model_defs)
  from resolveRoute_unnamed_path[OF raw2 disc2 unnamed2]
  obtain p2 q2 where p2: "path (normalize_route ?ext ?root) = Value p2"
    and loc2: "localizedRoute ?ext ?proxy ?root (Some ''fr'')
               = Inr ((normalize_route ?ext ?root)\<lparr>path := Value q2\<rparr>)"
    and q2: "(let p1 = (if opt_prefixable (options ?proxy)
                           \<lparr>currentLocale = effective_locale ?proxy (Some ''fr''),
                            defaultLocale = opt_defaultLocale (options ?proxy),
                            strategy = opt_strategy (options ?proxy)\<rparr>
                      then ''/'' @ effective_locale ?proxy (Some ''fr'') @ p2 else p2)
            in q2 = (if trailingSlash (options ?proxy)
                     then withTrailingSlash ?ext p1 True
                     else withoutTrailingSlash ?ext p1 True))"
    by (auto simp add: Let_def)
  from p2 have p2': "p2 = ''/''" by (simp add: example_defs model_defs)
  from q2 have q2': "q2 = ''/''" unfolding p2' by (simp add: example_defs model_defs)
  have second: "localizedRoute ?ext ?proxy ?root (Some ''fr'') = Inr (path_location ''/'')"
    using loc2 unfolding q2' by (simp add: example_defs model_defs)
  show ?thesis using raw first ends second by (simp add: example_defs)
qed

text \<open>
  C1 as the spec states it fails: with \<open>trailingSlash\<close> off, the path \<open>/about//\<close>
  is localized to \<open>/fr/about/\<close>, which ends with a slash.
\<close>

theorem resolveRoute_unnamed_path_counterexample:
  "isRouteLocationPathRaw (normalize_route example_externals (RouteObj (path_location ''/about//''))) \<and>
   utils_resolve example_proxy (normalize_route example_externals (RouteObj (path_location ''/about//'')))
       (opt_strategy (options example_proxy)) (effective_locale example_proxy (Some ''fr''))
     = Inr (example_route None ''/about//'' Map.empty) \<and>
   \<not> trailingSlash (options example_proxy) \<and>
   localizedRoute example_externals example_proxy (RouteObj (path_location ''/about//'')) (Some ''fr'')
     = Inr (path_location ''/fr/about/'') \<and>
   endsWith ''/fr/about/'' ''/''"
  by (simp add: example_defs model_defs)

subsection \<open>The final resolution\<close>

text \<open>
  C4. When the router resolves the localized descriptor to a route with a non-empty name,
  \<open>resolveRoute\<close> returns that route. When it resolves it to a route without a name (or
  with an empty one), \<open>resolveRoute\<close> resolves the route reference as the caller gave it
  and returns what that yields, named or not; an exception of this second resolution goes
  through the same handler.
\<close>

theorem resolveRoute_final_success:
  assumes loc: "localizedRoute ext this rt lc = Inr lr"
      and res: "router_resolve this (RouteObj lr) = Inr resolved"
  shows "(truthy_name (rname resolved) \<longrightarrow> resolveRoute ext this rt lc = Inr (Resolved resolved)) \<and>
         (\<not> truthy_name (rname resolved) \<longrightarrow>
            (\<forall>r'. router_resolve this rt = Inr r' \<longrightarrow>
                  resolveRoute ext this rt lc = Inr (Resolved r')) \<and>
            (\<forall>e. router_resolve this rt = Inl e \<longrightarrow>
                  resolveRoute ext this rt lc = catch_final e))"
  by (simp add: resolveRoute_def final_resolve_def loc res)

text \<open>
  In the example, the name \<open>about\<close> resolves to the route \<open>about___fr\<close>; the path
  \<open>/about\<close> is localized to \<open>/fr/about\<close>, which the router knows under no name, so
  the result is the resolution of \<open>/about\<close> itself.
\<close>

theorem resolveRoute_final_success_witness:
  "resolveRoute example_externals example_proxy (RouteStr ''about'') (Some ''fr'')
     = Inr (Resolved (example_route (Some (NameStr ''about___fr'')) ''/fr/about'' Map.empty)) \<and>
   router_resolve example_proxy (RouteObj (path_location ''/fr/about''))
     = Inr (example_route None ''/fr/about'' Map.empty) \<and>
   resolveRoute example_externals example_proxy (RouteObj (path_location ''/about'')) (Some ''fr'')
     = Inr (Resolved (example_route None ''/about'' Map.empty))"
proof -
  let ?named = "example_route (Some (NameStr ''about___fr'')) ''/fr/about'' Map.empty"
  let ?lr1 = "\<lparr>path = Absent, name = Value (NameStr ''about___fr''), params = None, query = None,
               hash = None, state = None, replace = None, force = None\<rparr>"
  have loc1: "localizedRoute example_externals example_proxy (RouteStr ''about'') (Some ''fr'') = Inr ?lr1"
    by (simp add: example_defs model_defs)
  have res1: "router_resolve example_proxy (RouteObj ?lr1) = Inr ?named"
    by (simp add: example_defs)
  have named: "truthy_name (rname ?named)"
    by (simp add: example_defs truthy_name_def)
  have first: "resolveRoute example_externals example_proxy (RouteStr ''about'') (Some ''fr'')
                 = Inr (Resolved ?named)"
    using resolveRoute_final_success[OF loc1 res1] named by blast
  let ?rt2 = "RouteObj (path_location ''/about'')"
  have loc2: "localizedRoute example_externals example_proxy ?rt2 (Some ''fr'')
                = Inr (path_location ''/fr/about'')"
    by (simp add: example_defs model_defs)
  have res2: "router_resolve example_proxy (RouteObj (path_location ''/fr/about''))
                = Inr (example_route None ''/fr/about'' Map.empty)"
    by (simp add: example_defs model_defs)
  have unnamed: "\<not> truthy_name (rname (example_route None ''/fr/about'' Map.empty))"
    by (simp add: example_defs truthy_name_def)
  have retry: "router_resolve example_proxy ?rt2 = Inr (example_route None ''/about'' Map.empty)"
    by (simp add: example_defs model_defs)
  have second: "resolveRoute example_externals example_proxy ?rt2 (Some ''fr'')
                  = Inr (Resolved (example_route None ''/about'' Map.empty))"
    using resolveRoute_final_success[OF loc2 res2] unnamed retry by blast
  show ?thesis using first res2 second by simp
qed

text \<open>
  C5. When the final resolution (of the localized descriptor, or of the original reference
  after an unnamed result) throws the no-match failure, an object whose \<open>type\<close> is 1,
  \<open>resolveRoute\<close> returns \<open>null\<close> and \<open>localePath\<close> returns the empty string.
\<close>

theorem resolveRoute_no_match:
  assumes loc: "localizedRoute ext this rt lc = Inr lr"
      and thrown: "router_resolve this (RouteObj lr) = Inl (ThrownObject (Some 1)) \<or>
                   (\<exists>r. router_resolve this (RouteObj lr) = Inr r \<and> \<not> truthy_name (rname r) \<and>
                        router_resolve this rt = Inl (ThrownObject (Some 1)))"
  shows "resolveRoute ext this rt lc = Inr ResultNull \<and> localePath ext this rt lc = Inr []"
proof -
  have "final_resolve this lr rt = Inr ResultNull"
    using thrown by (auto simp add: final_resolve_def catch_final_def)
  then have "resolveRoute ext this rt lc = Inr ResultNull"
    by (simp add: resolveRoute_def loc)
  then show ?thesis by (simp add: localePath_def)
qed

text \<open>The unknown route name \<open>missing\<close> in the example.\<close>

theorem resolveRoute_no_match_witness:
  "router_resolve example_proxy (RouteObj \<lparr>path = Absent, name = Value (NameStr ''missing___fr''),
       params = None, query = None, hash = None, state = None, replace = None, force = None\<rparr>)
     = Inl (ThrownObject (Some 1)) \<and>
   resolveRoute example_externals example_proxy (RouteStr ''missing'') (Some ''fr'') = Inr ResultNull \<and>
   localePath example_externals example_proxy (RouteStr ''missing'') (Some ''fr'') = Inr []"
proof -
  let ?lr = "\<lparr>path = Absent, name = Value (NameStr ''missing___fr''), params = None, query = None,
               hash = None, state = None, replace = None, force = None\<rparr>"
  have loc: "localizedRoute example_externals example_proxy (RouteStr ''missing'') (Some ''fr'') = Inr ?lr"
    by (simp add: example_defs model_defs)
  have thrown: "router_resolve example_proxy (RouteObj ?lr) = Inl (ThrownObject (Some 1))"
    by (simp add: example_defs)
  show ?thesis
    using resolveRoute_no_match[OF loc disjI1[OF thrown]] thrown by simp
qed

text \<open>
  C6, as the code has it. When the final resolution throws anything but the no-match
  failure and but \<open>null\<close> (an object whose \<open>type\<close> is missing or is not 1, or a
  primitive), the handler ends without returning or rethrowing: the error is swallowed,
  \<open>resolveRoute\<close> returns \<open>undefined\<close>, \<open>localePath\<close> the empty string and
  \<open>localeRoute\<close> \<open>undefined\<close>.
\<close>

theorem resolveRoute_other_error:
  assumes loc: "localizedRoute ext this rt lc = Inr lr"
      and thrown: "router_resolve this (RouteObj lr) = Inl e \<or>
                   (\<exists>r. router_resolve this (RouteObj lr) = Inr r \<and> \<not> truthy_name (rname r) \<and>
                        router_resolve this rt = Inl e)"
      and other: "e \<noteq> ThrownObject (Some 1)"
      and not_null: "e \<noteq> ThrownNull"
  shows "resolveRoute ext this rt lc = Inr ResultUndefined \<and>
         localePath ext this rt lc = Inr [] \<and>
         localeRoute ext this rt lc = Inr None"
proof -
  have "catch_final e = Inr ResultUndefined"
    using other not_null by (cases e) (auto simp add: catch_final_def)
  then have "final_resolve this lr rt = Inr ResultUndefined"
    using thrown by (auto simp add: final_resolve_def)
  then have "resolveRoute ext this rt lc = Inr ResultUndefined"
    by (simp add: resolveRoute_def loc)
  then show ?thesis by (simp add: localePath_def localeRoute_def)
qed

text \<open>A router that throws a failure of type 4 for every reference.\<close>

theorem resolveRoute_other_error_witness:
  "resolveRoute example_externals
     (example_proxy\<lparr>router_resolve := (\<lambda>rt. Inl (ThrownObject (Some 4)))\<rparr>)
     (RouteStr ''about'') (Some ''fr'') = Inr ResultUndefined \<and>
   localePath example_externals
     (example_proxy\<lparr>router_resolve := (\<lambda>rt. Inl (ThrownObject (Some 4)))\<rparr>)
     (RouteStr ''about'') (Some ''fr'') = Inr []"
proof -
  let ?proxy = "example_proxy\<lparr>router_resolve := (\<lambda>rt. Inl (ThrownObject (Some 4)))\<rparr>"
  let ?lr = "\<lparr>path = Absent, name = Value (NameStr ''about___fr''), params = None, query = None,
               hash = None, state = None, replace = None, force = None\<rparr>"
  have loc: "localizedRoute example_externals ?proxy (RouteStr ''about'') (Some ''fr'') = Inr ?lr"
    by (simp add: example_defs model_defs)
  have thrown: "router_resolve ?proxy (RouteObj ?lr) = Inl (ThrownObject (Some 4))"
    by simp
  show ?thesis
    using resolveRoute_other_error[OF loc disjI1[OF thrown]] by simp
qed

text \<open>
  C6 as the spec states it fails: a router that throws a plain error object (no
  \<open>type\<close>) on the final resolution makes \<open>resolveRoute\<close> return \<open>undefined\<close>;
  the error does not reach the caller.
\<close>

theorem resolveRoute_other_error_counterexample:
  "localizedRoute example_externals
     (example_proxy\<lparr>router_resolve := (\<lambda>rt. Inl (ThrownObject None))\<rparr>)
     (RouteStr ''about'') (Some ''fr'')
     = Inr \<lparr>path = Absent, name = Value (NameStr ''about___fr''), params = None, query = None,
            hash = None, state = None, replace = None, force = None\<rparr> \<and>
   ThrownObject None \<noteq> ThrownObject (Some 1) \<and>
   resolveRoute example_externals
     (example_proxy\<lparr>router_resolve := (\<lambda>rt. Inl (ThrownObject None))\<rparr>)
     (RouteStr ''about'') (Some ''fr'') = Inr ResultUndefined"
  by (simp add: example_defs model_defs)

text \<open>A thrown \<open>null\<close> is the one value the handler fails on: \<open>in\<close> throws.\<close>

lemma catch_final_null: "catch_final ThrownNull = Inl TypeError"
  by (simp add: catch_final_def)

subsection \<open>Switching the locale\<close>

text \<open>
  C8. When the base name of the current route is \<open>undefined\<close> or empty,
  \<open>switchLocalePath\<close> returns the empty string, for every target locale.
\<close>

theorem switchLocalePath_no_base_name:
  assumes "getRouteBaseName this (route this) = None \<or> getRouteBaseName this (route this) = Some []"
  shows "switchLocalePath ext this lc = Inr []"
  using assms by (auto simp add: switchLocalePath_def)

text \<open>A current route without a name, and one whose name begins with the separator.\<close>

theorem switchLocalePath_no_base_name_witness:
  "getRouteBaseName (example_proxy\<lparr>route := Some (example_route None ''/x'' Map.empty)\<rparr>)
     (Some (example_route None ''/x'' Map.empty)) = None \<and>
   switchLocalePath example_externals
     (example_proxy\<lparr>route := Some (example_route None ''/x'' Map.empty)\<rparr>) ''fr'' = Inr [] \<and>
   getRouteBaseName (example_proxy\<lparr>route := Some (example_route (Some (NameStr ''___fr'')) ''/x'' Map.empty)\<rparr>)
     (Some (example_route (Some (NameStr ''___fr'')) ''/x'' Map.empty)) = Some [] \<and>
   switchLocalePath example_externals
     (example_proxy\<lparr>route := Some (example_route (Some (NameStr ''___fr'')) ''/x'' Map.empty)\<rparr>) ''fr'' = Inr []"
proof -
  let ?p1 = "example_proxy\<lparr>route := Some (example_route None ''/x'' Map.empty)\<rparr>"
  let ?p2 = "example_proxy\<lparr>route := Some (example_route (Some (NameStr ''___fr'')) ''/x'' Map.empty)\<rparr>"
  have b1: "getRouteBaseName ?p1 (route ?p1) = None"
    by (simp add: example_defs model_defs)
  have b2: "getRouteBaseName ?p2 (route ?p2) = Some []"
    by (simp add: example_defs model_defs)
  show ?thesis
    using switchLocalePath_no_base_name[OF disjI1[OF b1], of example_externals "''fr''"]
      switchLocalePath_no_base_name[OF disjI2[OF b2], of example_externals "''fr''"] b1 b2
    by simp
qed

lemma routeToObject_params: "params (routeToObject r) = Some (rparams r)"
  by (simp add: routeToObject_def)

text \<open>
  C9. In \<open>switchLocalePath\<close>, for a current route with a non-empty base name, the
  parameters applied for the target locale are the interceptor's entry for that locale when
  there is one, else the entry for that locale of the overrides read from the route's
  metadata, else the empty object. The candidate route has the base name as its name, and
  as its parameters the current route's parameters overlaid with that choice: a parameter
  the choice does not mention keeps its current value, one it mentions takes the override.
  The result is the intercepting function applied to \<open>localePath\<close> of that candidate.
\<close>

theorem switchLocalePath_params:
  assumes cur: "route this = Some rv"
      and nm: "getRouteBaseName this (route this) = Some nm"
      and ne: "nm \<noteq> []"
  shows "resolvedParams ext this rv lc =
           (case (case dynamicParamsInterceptor (options this) of None \<Rightarrow> None | Some v \<Rightarrow> v lc) of
              Some p \<Rightarrow> p
            | None \<Rightarrow>
                (case getLocalizableMetaFromDynamicParams ext rv (dynamicRouteParamsKey (options this)) lc of
                   Some p \<Rightarrow> p
                 | None \<Rightarrow> Map.empty)) \<and>
         name (baseRoute ext this rv nm lc) = Value (NameStr nm) \<and>
         params (baseRoute ext this rv nm lc) = Some (rparams rv ++ resolvedParams ext this rv lc) \<and>
         (\<forall>k. k \<notin> dom (resolvedParams ext this rv lc) \<longrightarrow>
              (rparams rv ++ resolvedParams ext this rv lc) k = rparams rv k) \<and>
         (\<forall>k v. resolvedParams ext this rv lc k = Some v \<longrightarrow>
              (rparams rv ++ resolvedParams ext this rv lc) k = Some v) \<and>
         switchLocalePath ext this lc =
           (case localePath ext this (RouteObj (baseRoute ext this rv nm lc)) (Some lc) of
              Inl e \<Rightarrow> Inl e
            | Inr p \<Rightarrow> Inr (switchLocalePathIntercepter (options this) p lc))"
proof -
  have a: "resolvedParams ext this rv lc =
           (case (case dynamicParamsInterceptor (options this) of None \<Rightarrow> None | Some v \<Rightarrow> v lc) of
              Some p \<Rightarrow> p
            | None \<Rightarrow>
                (case getLocalizableMetaFromDynamicParams ext rv (dynamicRouteParamsKey (options this)) lc of
                   Some p \<Rightarrow> p
                 | None \<Rightarrow> Map.empty))"
    by (simp add: resolvedParams_def Let_def)
  have b: "name (baseRoute ext this rv nm lc) = Value (NameStr nm)"
    by (simp add: baseRoute_def Let_def)
  have c: "params (baseRoute ext this rv nm lc) = Some (rparams rv ++ resolvedParams ext this rv lc)"
    by (simp add: baseRoute_def Let_def routeToObject_params)
  have d: "\<forall>k. k \<notin> dom (resolvedParams ext this rv lc) \<longrightarrow>
              (rparams rv ++ resolvedParams ext this rv lc) k = rparams rv k"
    by (simp add: map_add_dom_app_simps)
  have e: "\<forall>k v. resolvedParams ext this rv lc k = Some v \<longrightarrow>
              (rparams rv ++ resolvedParams ext this rv lc) k = Some v"
    by (simp add: map_add_Some_iff)
  have f: "switchLocalePath ext this lc =
           (case localePath ext this (RouteObj (baseRoute ext this rv nm lc)) (Some lc) of
              Inl e \<Rightarrow> Inl e
            | Inr p \<Rightarrow> Inr (switchLocalePathIntercepter (options this) p lc))"
    using nm ne by (simp add: switchLocalePath_def cur)
  show ?thesis using a b c d e f by blast
qed

text \<open>
  The scenario of the spec: base name \<open>post\<close>, metadata with \<open>slug: bonjour\<close> for
  \<open>fr\<close>: \<open>slug\<close> becomes \<open>bonjour\<close> and \<open>id\<close> stays 7.
\<close>

theorem switchLocalePath_params_witness:
  "getRouteBaseName example_proxy (route example_proxy) = Some ''post'' \<and>
   resolvedParams example_externals example_proxy example_current ''fr'' ''slug'' = Some (PStr ''bonjour'') \<and>
   map_option (\<lambda>ps. (ps ''slug'', ps ''id'')) (params (baseRoute example_externals example_proxy example_current ''post'' ''fr''))
     = Some (Some (PStr ''bonjour''), Some (PStr ''7'')) \<and>
   switchLocalePath example_externals example_proxy ''fr'' = Inr ''/fr/post''"
proof -
  have cur: "route example_proxy = Some example_current"
    by (simp add: example_proxy_def)
  have nm: "getRouteBaseName example_proxy (route example_proxy) = Some ''post''"
    by (simp add: example_defs model_defs switch_defs)
  have ne: "''post'' \<noteq> []" by simp
  note inst = switchLocalePath_params[OF cur nm ne, of example_externals "''fr''"]
  have rp: "resolvedParams example_externals example_proxy example_current ''fr'' ''slug'' = Some (PStr ''bonjour'')"
    using inst by (simp add: example_defs switch_defs)
  have idfree: "''id'' \<notin> dom (resolvedParams example_externals example_proxy example_current ''fr'')"
    using inst by (simp add: example_defs switch_defs dom_def)
  have slug: "(rparams example_current ++ resolvedParams example_externals example_proxy example_current ''fr'') ''slug''
      = Some (PStr ''bonjour'')"
    using inst rp by blast
  have ident: "(rparams example_current ++ resolvedParams example_externals example_proxy example_current ''fr'') ''id''
      = Some (PStr ''7'')"
    using inst idfree by (simp add: example_defs switch_defs)
  have ps: "params (baseRoute example_externals example_proxy example_current ''post'' ''fr'') =
     Some (rparams example_current ++ resolvedParams example_externals example_proxy example_current ''fr'')"
    using inst by blast
  have sw: "switchLocalePath example_externals example_proxy ''fr'' = Inr ''/fr/post''"
    by (simp add: example_defs model_defs switch_defs)
  show ?thesis using nm rp ps slug ident sw by simp
qed

text \<open>
  C10. When the configured \<open>dynamicRouteParamsKey\<close> equals the default key, the overrides
  read from the route's metadata are the empty object whatever the metadata holds, so the
  parameters applied for a locale are the interceptor's entry for it, or none, and the
  candidate route's parameters are the current ones overlaid with that entry only.
\<close>

theorem default_key_ignores_meta:
  assumes key: "dynamicRouteParamsKey (options this) = DEFAULT_DYNAMIC_PARAMS_KEY ext"
  shows "getLocalizableMetaFromDynamicParams ext (rv\<lparr>meta := m\<rparr>) (dynamicRouteParamsKey (options this))
           = Map.empty \<and>
         resolvedParams ext this (rv\<lparr>meta := m\<rparr>) lc =
           (case dynamicParamsInterceptor (options this) of
              None \<Rightarrow> Map.empty
            | Some v \<Rightarrow> (case v lc of Some p \<Rightarrow> p | None \<Rightarrow> Map.empty)) \<and>
         params (baseRoute ext this (rv\<lparr>meta := m\<rparr>) nm lc) =
           Some (rparams rv ++
             (case dynamicParamsInterceptor (options this) of
                None \<Rightarrow> Map.empty
              | Some v \<Rightarrow> (case v lc of Some p \<Rightarrow> p | None \<Rightarrow> Map.empty)))"
  by (simp add: getLocalizableMetaFromDynamicParams_def resolvedParams_def baseRoute_def
      routeToObject_def key Let_def split: option.splits)

text \<open>
  The example with the empty key configured: the metadata holds an override of \<open>slug\<close>
  for \<open>fr\<close> under that key, and \<open>slug\<close> keeps its current value.
\<close>

theorem default_key_ignores_meta_witness:
  "dynamicRouteParamsKey (options (example_proxy\<lparr>options := example_options\<lparr>dynamicRouteParamsKey := []\<rparr>\<rparr>))
     = DEFAULT_DYNAMIC_PARAMS_KEY example_externals \<and>
   map_option (\<lambda>ps. ps ''slug'')
     (params (baseRoute example_externals
        (example_proxy\<lparr>options := example_options\<lparr>dynamicRouteParamsKey := []\<rparr>\<rparr>)
        example_current ''post'' ''fr''))
     = Some (Some (PStr ''hello''))"
proof -
  let ?proxy = "example_proxy\<lparr>options := example_options\<lparr>dynamicRouteParamsKey := []\<rparr>\<rparr>"
  have key: "dynamicRouteParamsKey (options ?proxy) = DEFAULT_DYNAMIC_PARAMS_KEY example_externals"
    by (simp add: example_externals_def)
  have same: "example_current\<lparr>meta := meta example_current\<rparr> = example_current"
    by simp
  have "params (baseRoute example_externals ?proxy example_current ''post'' ''fr'') =
          Some (rparams example_current ++
             (case dynamicParamsInterceptor (options ?proxy) of
                None \<Rightarrow> Map.empty
              | Some v \<Rightarrow> (case v ''fr'' of Some p \<Rightarrow> p | None \<Rightarrow> Map.empty)))"
    using default_key_ignores_meta[OF key, where rv = example_current and m = "meta example_current"
        and nm = "''post''" and lc = "''fr''"]
    unfolding same by blast
  then show ?thesis using key by (simp add: example_defs)
qed

end
